theory Spec2Isabelle
  imports Main "HOL-Library.Sublist" "HOL-Library.Multiset"
begin

section \<open>Python values, exceptions and rows\<close>

text \<open>
  Both scripts (\<^verbatim>\<open>onedot_solution.py\<close> and \<^verbatim>\<open>onedot_data_analyst_solution.py\<close>)
  work on pandas rows whose cells hold JSON scalars or the missing-value marker.
  \<open>PNone\<close> is Python's \<open>None\<close> (a JSON \<open>null\<close> kept as an object), \<open>PNaN\<close> is the float
  \<open>nan\<close> pandas writes into a cell that has no value, \<open>PStr\<close> is a \<open>str\<close> and \<open>PNum\<close> a
  number (an \<open>int\<close>, or a float with an integral value: Python compares the two as equal).
  A \<open>str\<close> is the list of its code points; \<open>char\<close> covers U+0000 to U+00FF, which holds
  every literal of the two scripts (\<open>CHR 0xFC\<close> is u-umlaut, \<open>CHR 0xE9\<close> is e-acute,
  \<open>CHR 0xE4\<close> is a-umlaut).
\<close>

datatype pyval = PNone | PNaN | PStr string | PNum int

datatype error = KeyError | TypeError | AttributeError

text \<open>A row is a pandas \<open>Series\<close>: a finite map from column labels to cells.\<close>

type_synonym row = "string \<Rightarrow> pyval option"

definition getitem :: "row \<Rightarrow> string \<Rightarrow> error + pyval" where
  "getitem row k = (case row k of None \<Rightarrow> Inl KeyError | Some v \<Rightarrow> Inr v)"

text \<open>Python's \<open>==\<close> on cells: \<open>nan\<close> equals nothing, a \<open>str\<close> never equals a number.\<close>

fun py_eq :: "pyval \<Rightarrow> pyval \<Rightarrow> bool" where
  "py_eq PNone PNone = True"
| "py_eq (PStr a) (PStr b) = (a = b)"
| "py_eq (PNum a) (PNum b) = (a = b)"
| "py_eq _ _ = False"

text \<open>Truth value of a cell in a condition: \<open>bool(float('nan'))\<close> is \<open>True\<close>.\<close>

fun truthy :: "pyval \<Rightarrow> bool" where
  "truthy PNone = False"
| "truthy PNaN = True"
| "truthy (PStr s) = (s \<noteq> [])"
| "truthy (PNum n) = (n \<noteq> 0)"

text \<open>
  Subscripting a dict literal whose keys are all strings: any other hashable key, and
  any string not in the table, raises \<open>KeyError\<close>.
\<close>

fun dict_getitem :: "(string \<times> string) list \<Rightarrow> pyval \<Rightarrow> error + pyval" where
  "dict_getitem d (PStr s) = (case map_of d s of None \<Rightarrow> Inl KeyError | Some v \<Rightarrow> Inr (PStr v))"
| "dict_getitem d _ = Inl KeyError"

text \<open>\<open>try: return body / except KeyError: return dflt\<close>; other exceptions propagate.\<close>

definition except_KeyError :: "error + pyval \<Rightarrow> pyval \<Rightarrow> error + pyval" where
  "except_KeyError body dflt =
     (case body of Inr v \<Rightarrow> Inr v | Inl KeyError \<Rightarrow> Inr dflt | Inl e \<Rightarrow> Inl e)"

definition bind_err :: "error + 'a \<Rightarrow> ('a \<Rightarrow> error + 'b) \<Rightarrow> error + 'b" where
  "bind_err m f = (case m of Inl e \<Rightarrow> Inl e | Inr v \<Rightarrow> f v)"

section \<open>String operations\<close>

text \<open>
  \<open>str.strip()\<close> removes the characters for which \<open>str.isspace()\<close> holds; below U+0100
  these are U+0009 to U+000D, U+001C to U+0020, U+0085 and U+00A0.
\<close>

definition is_space :: "char \<Rightarrow> bool" where
  "is_space c = (let n = (of_char c :: nat) in
     (9 \<le> n \<and> n \<le> 13) \<or> (28 \<le> n \<and> n \<le> 32) \<or> n = 133 \<or> n = 160)"

definition strip :: "string \<Rightarrow> string" where
  "strip s = rev (dropWhile is_space (rev (dropWhile is_space s)))"

text \<open>
  \<open>str.lower()\<close> below U+0100: the upper-case letters are A to Z and U+00C0 to U+00DE
  without the multiplication sign U+00D7; each maps to the code point 32 above it. On this
  range \<open>str.lower()\<close> works character by character and keeps the length. Beyond it, it
  does neither (U+0130 becomes two characters, a capital sigma depends on its position);
  the section on wider text below models one such character.
\<close>

definition lower_char :: "char \<Rightarrow> char" where
  "lower_char c = (let n = (of_char c :: nat) in
     if (65 \<le> n \<and> n \<le> 90) \<or> (192 \<le> n \<and> n \<le> 222 \<and> n \<noteq> 215)
     then char_of (n + 32) else c)"

definition lower :: "string \<Rightarrow> string" where
  "lower s = map lower_char s"

text \<open>\<open>g in s\<close> for two strings: \<open>g\<close> occurs in \<open>s\<close> as a contiguous block.\<close>

fun contains :: "string \<Rightarrow> string \<Rightarrow> bool" where
  "contains g [] = (g = [])"
| "contains g (c # cs) = (prefix g (c # cs) \<or> contains g cs)"

text \<open>\<open>g in v\<close> for a cell \<open>v\<close>: \<open>None\<close>, a float and an int are not iterable.\<close>

fun py_in :: "string \<Rightarrow> pyval \<Rightarrow> error + bool" where
  "py_in g (PStr s) = Inr (contains g s)"
| "py_in g _ = Inl TypeError"

text \<open>\<open>v.strip()\<close> for a cell \<open>v\<close>: only a \<open>str\<close> has the method.\<close>

fun py_strip :: "pyval \<Rightarrow> error + string" where
  "py_strip (PStr s) = Inr (strip s)"
| "py_strip _ = Inl AttributeError"

section \<open>The rewrite rules of \<^verbatim>\<open>onedot_solution.py\<close>\<close>

definition cartype_table :: "(string \<times> string) list" where
  "cartype_table =
     [(''Coup'' @ [CHR 0xE9], ''Coup'' @ [CHR 0xE9]),
      (''Limousine'', ''Saloon''),
      (''Cabriolet'', ''Convertible / Roadster''),
      (''Kombi'', ''Station Wagon''),
      (''SUV / Gel'' @ [CHR 0xE4] @ ''ndewagen'', ''SUV'')]"

definition normalize_cartype :: "row \<Rightarrow> error + pyval" where
  "normalize_cartype row =
     bind_err (getitem row ''Seats'') (\<lambda>seats.
       if py_eq seats (PNum 1) then Inr (PStr ''Single seater'')
       else except_KeyError
              (bind_err (getitem row ''BodyTypeText'') (dict_getitem cartype_table))
              (PStr ''Other''))"

definition color_table :: "(string \<times> string list) list" where
  "color_table =
     [(''Black'', [''schwarz'']), (''Silver'', [''silber'']), (''Blue'', [''blau'']),
      (''Gray'', [''grau'', ''anthrazit'']), (''White'', [''weiss'']),
      (''Red'', [''red'', ''bordeaux'']), (''Green'', [''gr'' @ [CHR 0xFC] @ ''n'']),
      (''Yellow'', [''gelb'']), (''Purple'', [''violett'']), (''Gold'', [''gold'']),
      (''Brown'', [''braun'']), (''Orange'', [''orange'']), (''Beige'', [''beige''])]"

text \<open>
  The inner loop \<open>for german in germans\<close>: \<open>Inr True\<close> when the \<open>if\<close> fired (the
  function returns \<open>english\<close>), \<open>Inr False\<close> when the loop ran out.
\<close>

fun color_germans :: "row \<Rightarrow> string list \<Rightarrow> error + bool" where
  "color_germans row [] = Inr False"
| "color_germans row (german # germans) =
     bind_err (getitem row ''BodyColorText'') (\<lambda>text.
       bind_err (py_in german text) (\<lambda>found.
         if found then Inr True else color_germans row germans))"

fun color_pairs :: "row \<Rightarrow> (string \<times> string list) list \<Rightarrow> error + pyval" where
  "color_pairs row [] = Inr (PStr ''Other'')"
| "color_pairs row ((english, germans) # pairs) =
     bind_err (color_germans row germans) (\<lambda>found.
       if found then Inr (PStr english) else color_pairs row pairs)"

definition normalize_color :: "row \<Rightarrow> error + pyval" where
  "normalize_color row = color_pairs row color_table"

definition condition_table :: "(string \<times> string) list" where
  "condition_table =
     [(''Occasion'', ''Used''), (''Oldtimer'', ''Restored''), (''Neu'', ''New''),
      (''Vorf'' @ [CHR 0xFC] @ ''hrmodell'', ''Original Condition'')]"

definition normalize_condition :: "row \<Rightarrow> error + pyval" where
  "normalize_condition row =
     except_KeyError
       (bind_err (getitem row ''ConditionTypeText'') (dict_getitem condition_table))
       (PStr ''Other'')"

definition normalize_variant :: "row \<Rightarrow> error + pyval" where
  "normalize_variant row =
     bind_err (bind_err (getitem row ''ModelText'') py_strip) (\<lambda>model.
     bind_err (bind_err (getitem row ''ModelTypeText'') py_strip) (\<lambda>model_variant.
       if lower (take (length model) model_variant) = lower model
       then Inr (PStr (strip (drop (length model) model_variant)))
       else getitem row ''TypeName''))"

definition zip_table :: "(string \<times> string) list" where
  "zip_table =
     [(''Zuzwil'', ''9524''), (''Porrentruy'', ''2900''), (''Sursee'', ''6210''),
      (''Safenwil'', ''5745''), (''Basel'', ''4000''), (''St. Galen'', ''9000'')]"

definition normalize_zip :: "row \<Rightarrow> error + pyval" where
  "normalize_zip row =
     except_KeyError
       (bind_err (getitem row ''City'') (dict_getitem zip_table))
       (PStr ''Other'')"


text \<open>
  \<open>NORM_FUNCTIONS\<close> is a dict from column label to rule; \<open>items()\<close> walks it in the order
  written. \<open>apply_functions\<close> is the loop \<open>for column, funct in ...: row[column] = funct(row)\<close>:
  each rule reads the row as the rules before it left it, and an exception ends the loop.
  The script's \<open>normalize\<close> is \<open>normalize_os\<close> here: HOL has a constant \<open>normalize\<close> of its own.
\<close>

definition NORM_FUNCTIONS :: "(string \<times> (row \<Rightarrow> error + pyval)) list" where
  "NORM_FUNCTIONS =
     [(''BodyTypeText'', normalize_cartype),
      (''BodyColorText'', normalize_color),
      (''Condition'', normalize_condition),
      (''Variant'', normalize_variant),
      (''Zip'', normalize_zip)]"

fun apply_functions :: "(string \<times> (row \<Rightarrow> error + pyval)) list \<Rightarrow> row \<Rightarrow> error + row" where
  "apply_functions [] row = Inr row"
| "apply_functions ((column, funct) # rest) row =
     bind_err (funct row) (\<lambda>v. apply_functions rest (row(column \<mapsto> v)))"

definition normalize_os :: "row \<Rightarrow> error + row" where
  "normalize_os row = apply_functions NORM_FUNCTIONS row"

section \<open>Integration in \<^verbatim>\<open>onedot_solution.py\<close>\<close>

text \<open>
  The conditional expression of the last field:
  \<open>"l_km_consumption" if c and c != 'null' else None\<close>.
\<close>

definition fuel_consumption_unit :: "pyval \<Rightarrow> pyval" where
  "fuel_consumption_unit c =
     (if truthy c \<and> \<not> py_eq c (PStr ''null'') then PStr ''l_km_consumption'' else PNone)"

text \<open>
  The integrated record is the \<open>Series\<close> built from the dict literal: its eighteen labels
  in the order written. Every subscript of the row may raise \<open>KeyError\<close>.
\<close>

definition integrate :: "row \<Rightarrow> error + (string \<times> pyval) list" where
  "integrate row =
     bind_err (getitem row ''BodyTypeText'') (\<lambda>carType.
     bind_err (getitem row ''BodyColorText'') (\<lambda>color.
     bind_err (getitem row ''ConditionTypeText'') (\<lambda>condition.
     bind_err (getitem row ''City'') (\<lambda>city.
     bind_err (getitem row ''MakeText'') (\<lambda>make.
     bind_err (getitem row ''FirstRegYear'') (\<lambda>manufacture_year.
     bind_err (getitem row ''Km'') (\<lambda>mileage.
     bind_err (getitem row ''ModelText'') (\<lambda>model.
     bind_err (getitem row ''Variant'') (\<lambda>model_variant.
     bind_err (getitem row ''Zip'') (\<lambda>zip_code.
     bind_err (getitem row ''FirstRegMonth'') (\<lambda>manufacture_month.
     bind_err (getitem row ''ConsumptionTotalText'') (\<lambda>consumption.
       Inr [(''carType'', carType),
            (''color'', color),
            (''condition'', condition),
            (''currency'', PStr ''CHF''),
            (''drive'', PStr ''LHD''),
            (''city'', city),
            (''country'', PStr ''CH''),
            (''make'', make),
            (''manufacture_year'', manufacture_year),
            (''mileage'', mileage),
            (''mileage_unit'', PStr ''kilometer''),
            (''model'', model),
            (''model_variant'', model_variant),
            (''price_on_request'', PNone),
            (''type'', PStr ''car''),
            (''zip'', zip_code),
            (''manufacture_month'', manufacture_month),
            (''fuel_consumption_unit'', fuel_consumption_unit consumption)]))))))))))))"

section \<open>The rewrite rules and integration of \<^verbatim>\<open>onedot_data_analyst_solution.py\<close>\<close>

text \<open>
  The second script writes the same dict and list literals into its rules; it compares
  \<open>Seats\<close> with the string \<open>'1'\<close> and integrates the column \<open>Condition\<close>. Its \<open>normalize\<close>
  and \<open>integrate\<close> carry the suffix \<open>_da\<close> here, since the first script uses the same names.
\<close>

definition norm_cartype :: "row \<Rightarrow> error + pyval" where
  "norm_cartype row =
     bind_err (getitem row ''Seats'') (\<lambda>seats.
       if py_eq seats (PStr ''1'') then Inr (PStr ''Single seater'')
       else except_KeyError
              (bind_err (getitem row ''BodyTypeText'') (dict_getitem cartype_table))
              (PStr ''Other''))"

definition norm_color :: "row \<Rightarrow> error + pyval" where
  "norm_color row = color_pairs row color_table"

definition norm_condition :: "row \<Rightarrow> error + pyval" where
  "norm_condition row =
     except_KeyError
       (bind_err (getitem row ''ConditionTypeText'') (dict_getitem condition_table))
       (PStr ''Other'')"

definition norm_variant :: "row \<Rightarrow> error + pyval" where
  "norm_variant row =
     bind_err (bind_err (getitem row ''ModelText'') py_strip) (\<lambda>model.
     bind_err (bind_err (getitem row ''ModelTypeText'') py_strip) (\<lambda>model_variant.
       if lower (take (length model) model_variant) = lower model
       then Inr (PStr (strip (drop (length model) model_variant)))
       else getitem row ''TypeName''))"

definition norm_zip :: "row \<Rightarrow> error + pyval" where
  "norm_zip row =
     except_KeyError
       (bind_err (getitem row ''City'') (dict_getitem zip_table))
       (PStr ''Other'')"

definition NORM_FUNCT :: "(string \<times> (row \<Rightarrow> error + pyval)) list" where
  "NORM_FUNCT =
     [(''BodyTypeText'', norm_cartype),
      (''BodyColorText'', norm_color),
      (''Condition'', norm_condition),
      (''Variant'', norm_variant),
      (''Zip'', norm_zip)]"

definition normalize_da :: "row \<Rightarrow> error + row" where
  "normalize_da row = apply_functions NORM_FUNCT row"

definition integrate_da :: "row \<Rightarrow> error + (string \<times> pyval) list" where
  "integrate_da row =
     bind_err (getitem row ''BodyTypeText'') (\<lambda>carType.
     bind_err (getitem row ''BodyColorText'') (\<lambda>color.
     bind_err (getitem row ''Condition'') (\<lambda>condition.
     bind_err (getitem row ''City'') (\<lambda>city.
     bind_err (getitem row ''MakeText'') (\<lambda>make.
     bind_err (getitem row ''FirstRegYear'') (\<lambda>manufacture_year.
     bind_err (getitem row ''Km'') (\<lambda>mileage.
     bind_err (getitem row ''ModelText'') (\<lambda>model.
     bind_err (getitem row ''Variant'') (\<lambda>model_variant.
     bind_err (getitem row ''Zip'') (\<lambda>zip_code.
     bind_err (getitem row ''FirstRegMonth'') (\<lambda>manufacture_month.
     bind_err (getitem row ''ConsumptionTotalText'') (\<lambda>consumption.
       Inr [(''carType'', carType),
            (''color'', color),
            (''condition'', condition),
            (''currency'', PStr ''CHF''),
            (''drive'', PStr ''LHD''),
            (''city'', city),
            (''country'', PStr ''CH''),
            (''make'', make),
            (''manufacture_year'', manufacture_year),
            (''mileage'', mileage),
            (''mileage_unit'', PStr ''kilometer''),
            (''model'', model),
            (''model_variant'', model_variant),
            (''price_on_request'', PNone),
            (''type'', PStr ''car''),
            (''zip'', zip_code),
            (''manufacture_month'', manufacture_month),
            (''fuel_consumption_unit'', fuel_consumption_unit consumption)]))))))))))))"

section \<open>Aggregation\<close>

text \<open>
  A raw row is one line of the supplier file after the \<open>ID\<close> column has been made
  numeric (line 18 of the first script, line 14 of the second). The conversion itself is
  not modelled: \<open>pd.to_numeric\<close> keeps an integer exact where \<open>astype('float')\<close> rounds it
  to a double, so one list of raw rows stands for the same file in both scripts only while
  the identifiers are integers of magnitude at most \<open>2^53\<close>, as in every example below.
  The five text columns of the grouping key hold a string or JSON \<open>null\<close> (\<open>None\<close> here;
  a key that is a JSON number is outside the model); the attribute name is a string and
  the attribute value any cell. The other columns of the file never reach the pipeline:
  \<open>agg\<close> keeps the key and the two attribute columns only.
\<close>

record raw_row =
  ID :: int
  MakeText :: "string option"
  TypeName :: "string option"
  TypeNameFull :: "string option"
  ModelText :: "string option"
  ModelTypeText :: "string option"
  Attribute_Names :: string
  Attribute_Values :: pyval

type_synonym group_key =
  "int \<times> string option \<times> string option \<times> string option \<times> string option \<times> string option"

definition CONSTANT_COLUMNS :: "string list" where
  "CONSTANT_COLUMNS =
     [''ID'', ''MakeText'', ''TypeName'', ''TypeNameFull'', ''ModelText'', ''ModelTypeText'']"

definition key_of :: "raw_row \<Rightarrow> group_key" where
  "key_of r = (ID r, MakeText r, TypeName r, TypeNameFull r, ModelText r, ModelTypeText r)"

definition has_null :: "group_key \<Rightarrow> bool" where
  "has_null k = (case k of (i, mk, tn, tnf, mt, mtt) \<Rightarrow>
     mk = None \<or> tn = None \<or> tnf = None \<or> mt = None \<or> mtt = None)"

text \<open>
  \<open>groupby\<close> sorts the groups by key (\<open>sort=True\<close> is the default): by \<open>ID\<close>, then by the
  text columns in turn, strings by code point and a missing value after every string.
\<close>

fun str_le :: "string \<Rightarrow> string \<Rightarrow> bool" where
  "str_le [] t = True"
| "str_le (a # s) [] = False"
| "str_le (a # s) (b # t) = ((of_char a :: nat) < of_char b \<or> (a = b \<and> str_le s t))"

fun cell_le :: "string option \<Rightarrow> string option \<Rightarrow> bool" where
  "cell_le a None = True"
| "cell_le None (Some t) = False"
| "cell_le (Some s) (Some t) = str_le s t"

fun cells_le :: "string option list \<Rightarrow> string option list \<Rightarrow> bool" where
  "cells_le [] bs = True"
| "cells_le (a # as) [] = False"
| "cells_le (a # as) (b # bs) = (if a = b then cells_le as bs else cell_le a b)"

definition key_le :: "group_key \<Rightarrow> group_key \<Rightarrow> bool" where
  "key_le k k' = (case k of (i, mk, tn, tnf, mt, mtt) \<Rightarrow>
     (case k' of (i', mk', tn', tnf', mt', mtt') \<Rightarrow>
        if i = i' then cells_le [mk, tn, tnf, mt, mtt] [mk', tn', tnf', mt', mtt']
        else i < i'))"

fun insert_key :: "group_key \<Rightarrow> group_key list \<Rightarrow> group_key list" where
  "insert_key k [] = [k]"
| "insert_key k (x # xs) = (if key_le k x then k # x # xs else x # insert_key k xs)"

definition sort_keys :: "group_key list \<Rightarrow> group_key list" where
  "sort_keys ks = foldr insert_key ks []"

text \<open>
  \<open>df.groupby(CONSTANT_COLUMNS, dropna=...)\<close>: with \<open>dropna\<close> (the default) every row
  with a missing value in a key column is left out; each group keeps its rows in the
  order of the frame.
\<close>

definition groupby :: "bool \<Rightarrow> raw_row list \<Rightarrow> (group_key \<times> raw_row list) list" where
  "groupby dropna df =
     (let kept = (if dropna then filter (\<lambda>r. \<not> has_null (key_of r)) df else df)
      in map (\<lambda>k. (k, filter (\<lambda>r. key_of r = k) kept))
             (sort_keys (remdups (map key_of kept))))"

text \<open>
  \<open>.agg({"Attribute Names": list, "Attribute Values": list}).reset_index()\<close>: one row per
  group, holding the six key columns and the two lists of the group's attribute names and
  values, in the order of the group's rows.
\<close>

record agg_row =
  group :: group_key
  Attribute_Names_list :: "string list"
  Attribute_Values_list :: "pyval list"

definition agg_reset_index :: "group_key \<times> raw_row list \<Rightarrow> agg_row" where
  "agg_reset_index g =
     \<lparr>group = fst g,
      Attribute_Names_list = map Attribute_Names (snd g),
      Attribute_Values_list = map Attribute_Values (snd g)\<rparr>"

text \<open>A text cell of a key column read from the row: a missing value reads as \<open>nan\<close>.\<close>

fun cell :: "string option \<Rightarrow> pyval" where
  "cell None = PNaN"
| "cell (Some s) = PStr s"

text \<open>\<open>{col_name: row[col_name] for col_name in CONSTANT_COLUMNS}\<close>, as its list of items.\<close>

definition constant_items :: "group_key \<Rightarrow> (string \<times> pyval) list" where
  "constant_items k = (case k of (i, mk, tn, tnf, mt, mtt) \<Rightarrow>
     [(''ID'', PNum i), (''MakeText'', cell mk), (''TypeName'', cell tn),
      (''TypeNameFull'', cell tnf), (''ModelText'', cell mt), (''ModelTypeText'', cell mtt)])"

text \<open>Storing pairs into a dict one after the other: a later pair overwrites.\<close>

definition dict_update :: "row \<Rightarrow> (string \<times> pyval) list \<Rightarrow> row" where
  "dict_update d kvs = fold (\<lambda>kv m. m(fst kv \<mapsto> snd kv)) kvs d"

text \<open>
  \<open>aggregate_attributes\<close>: the dict of the zipped attribute lists, then \<open>update\<close> with the
  constant columns read from the row.
\<close>

definition aggregate_attributes :: "agg_row \<Rightarrow> row" where
  "aggregate_attributes row =
     (let attr = dict_update Map.empty
                   (zip (Attribute_Names_list row) (Attribute_Values_list row))
      in dict_update attr (constant_items (group row)))"

text \<open>
  \<open>DataFrame.apply(..., axis=1)\<close> with a function that returns a \<open>Series\<close>: the result has
  the union of the labels as columns, and a row without a label gets \<open>nan\<close> there.
\<close>

definition columns_of :: "agg_row list \<Rightarrow> string list" where
  "columns_of rows = concat (map Attribute_Names_list rows) @ CONSTANT_COLUMNS"

definition frame :: "string list \<Rightarrow> row list \<Rightarrow> row list" where
  "frame cols rows =
     map (\<lambda>r k. if k \<in> set cols then Some (case r k of None \<Rightarrow> PNaN | Some v \<Rightarrow> v) else None)
         rows"

text \<open>Applying a function that may raise to every row: the first exception ends the run.\<close>

fun apply_rows :: "('a \<Rightarrow> error + 'b) \<Rightarrow> 'a list \<Rightarrow> error + 'b list" where
  "apply_rows f [] = Inr []"
| "apply_rows f (r # rs) =
     bind_err (f r) (\<lambda>y. bind_err (apply_rows f rs) (\<lambda>ys. Inr (y # ys)))"

text \<open>
  The first script: \<open>sort_values("ID")\<close>, \<open>groupby\<close> with the default \<open>dropna\<close>, then
  \<open>apply(aggregate_attributes, axis=1)\<close>. The sort is taken as stable here (rows of one
  \<open>ID\<close> keep their order). The default sort of pandas need not keep that order; the order
  of a group's rows decides the result only when the group repeats an attribute name, and
  no example below does.
\<close>

definition agg_data :: "raw_row list \<Rightarrow> row list" where
  "agg_data df0 =
     (let df = sort_key ID df0;
          grouped = map agg_reset_index (groupby True df)
      in frame (columns_of grouped) (map aggregate_attributes grouped))"

definition normalized_data :: "raw_row list \<Rightarrow> error + row list" where
  "normalized_data df0 = apply_rows normalize_os (agg_data df0)"

definition formated_data :: "raw_row list \<Rightarrow> error + (string \<times> pyval) list list" where
  "formated_data df0 = bind_err (normalized_data df0) (apply_rows integrate)"

text \<open>
  The second script sorts in the same way (again taken as stable), groups with
  \<open>dropna=False\<close> and then turns the \<open>ModelText\<close> column into strings: \<open>astype('str')\<close>
  leaves a string as it is and writes \<open>nan\<close> for a missing value.
\<close>

fun astype_str :: "string option \<Rightarrow> string" where
  "astype_str None = ''nan''"
| "astype_str (Some s) = s"

definition ModelText_astype_str :: "agg_row \<Rightarrow> agg_row" where
  "ModelText_astype_str row = (case group row of (i, mk, tn, tnf, mt, mtt) \<Rightarrow>
     row\<lparr>group := (i, mk, tn, tnf, Some (astype_str mt), mtt)\<rparr>)"

definition df_grp_agg :: "raw_row list \<Rightarrow> agg_row list" where
  "df_grp_agg df0 =
     map ModelText_astype_str (map agg_reset_index (groupby False (sort_key ID df0)))"

definition aggr_attr :: "agg_row \<Rightarrow> row" where
  "aggr_attr row =
     (let attr = dict_update Map.empty
                   (zip (Attribute_Names_list row) (Attribute_Values_list row))
      in dict_update attr (constant_items (group row)))"

definition df_grp_agg_attr :: "raw_row list \<Rightarrow> row list" where
  "df_grp_agg_attr df0 =
     (let grouped = df_grp_agg df0
      in frame (columns_of grouped) (map aggr_attr grouped))"

definition normalized_df :: "raw_row list \<Rightarrow> error + row list" where
  "normalized_df df0 = apply_rows normalize_da (df_grp_agg_attr df0)"

definition integrated_df :: "raw_row list \<Rightarrow> error + (string \<times> pyval) list list" where
  "integrated_df df0 = bind_err (normalized_df df0) (apply_rows integrate_da)"

section \<open>Example inputs\<close>

text \<open>
  The raw rows of one listing: one row per attribute, all with the same six key values,
  as the supplier file has them (attribute values are strings). \<open>example_record\<close> is the
  aggregated record of such a listing, and \<open>null_model_row\<close> a raw row whose model text is
  JSON \<open>null\<close>.
\<close>

definition full_attributes :: "(string \<times> pyval) list" where
  "full_attributes =
     [(''Seats'', PStr ''5''), (''BodyTypeText'', PStr ''Limousine''),
      (''BodyColorText'', PStr ''schwarz metallic''), (''ConditionTypeText'', PStr ''Occasion''),
      (''City'', PStr ''Basel''), (''FirstRegYear'', PStr ''2015''),
      (''FirstRegMonth'', PStr ''3''), (''Km'', PStr ''41000''),
      (''ConsumptionTotalText'', PStr ''5.1 l/100km'')]"

definition listing :: "int \<Rightarrow> (string \<times> pyval) list \<Rightarrow> raw_row list" where
  "listing i attrs =
     map (\<lambda>kv. \<lparr>ID = i, MakeText = Some ''Audi'', TypeName = Some ''A4 Avant 2.0'',
                 TypeNameFull = Some ''Audi A4 Avant 2.0'', ModelText = Some ''A4'',
                 ModelTypeText = Some ''A4 Avant'',
                 Attribute_Names = fst kv, Attribute_Values = snd kv\<rparr>) attrs"

definition without :: "string \<Rightarrow> (string \<times> pyval) list \<Rightarrow> (string \<times> pyval) list" where
  "without name attrs = filter (\<lambda>kv. fst kv \<noteq> name) attrs"

definition example_record :: row where
  "example_record = dict_update Map.empty
     (full_attributes @
      [(''ID'', PNum 5), (''MakeText'', PStr ''Audi''), (''TypeName'', PStr ''A4 Avant 2.0''),
       (''TypeNameFull'', PStr ''Audi A4 Avant 2.0''), (''ModelText'', PStr ''A4''),
       (''ModelTypeText'', PStr ''A4 Avant'')])"

definition null_model_row :: raw_row where
  "null_model_row =
     \<lparr>ID = 7, MakeText = Some ''Audi'', TypeName = Some ''Quattro'',
      TypeNameFull = Some ''Audi Quattro'', ModelText = None, ModelTypeText = Some ''Quattro'',
      Attribute_Names = ''Seats'', Attribute_Values = PStr ''4''\<rparr>"

section \<open>The rules as the specification words them\<close>

text \<open>
  The colour rule in the specification's words: the English name of the first pair of the
  ordered list one of whose German substrings occurs in the text, \<open>Other\<close> when there is
  none. \<open>sublist\<close> is the library's notion of a contiguous block.
\<close>

definition color_rule_spec :: "string \<Rightarrow> string" where
  "color_rule_spec t =
     (case find (\<lambda>pair. \<exists>german\<in>set (snd pair). sublist german t) color_table of
        None \<Rightarrow> ''Other''
      | Some pair \<Rightarrow> fst pair)"






text \<open>
  A table of rules is independent when no rule's result changes if the column of another
  rule of the table is overwritten. \<open>rewritten\<close> is the record with every rule's column
  replaced by that rule's result on the record as it came in.
\<close>

definition independent :: "(string \<times> (row \<Rightarrow> error + pyval)) list \<Rightarrow> bool" where
  "independent fs =
     (\<forall>cf\<in>set fs. \<forall>cf'\<in>set fs. fst cf \<noteq> fst cf' \<longrightarrow>
        (\<forall>row v. snd cf (row(fst cf' \<mapsto> v)) = snd cf row))"

definition rewritten :: "(string \<times> (row \<Rightarrow> error + pyval)) list \<Rightarrow> row \<Rightarrow> row" where
  "rewritten fs row =
     (\<lambda>k. case map_of fs k of
             None \<Rightarrow> row k
           | Some f \<Rightarrow> (case f row of Inl e \<Rightarrow> None | Inr v \<Rightarrow> Some v))"

section \<open>The variant rule on wider text\<close>

text \<open>
  Python's strings hold every Unicode character. \<open>uchar\<close> adds two of them to the
  characters up to U+00FF: U+0130, the capital I with a dot above, whose \<open>lower()\<close> is the
  two characters \<open>i\<close> and U+0307, and U+0307 itself, the combining dot above, which
  \<open>lower()\<close> leaves as it is. Neither is white space. On text over these characters
  \<open>str.lower()\<close> is still the concatenation of the characters' own results.
  \<open>variant_u\<close> is the body of \<open>normalize_variant\<close> and of \<open>norm_variant\<close> on two such
  texts: \<open>Some\<close> of the variant when the test of the \<open>if\<close> holds, \<open>None\<close> when the rule
  returns the type name.
\<close>

datatype uchar = Latin1 char | U0130 | U0307

definition is_space_u :: "uchar \<Rightarrow> bool" where
  "is_space_u c = (case c of Latin1 a \<Rightarrow> is_space a | U0130 \<Rightarrow> False | U0307 \<Rightarrow> False)"

definition strip_u :: "uchar list \<Rightarrow> uchar list" where
  "strip_u s = rev (dropWhile is_space_u (rev (dropWhile is_space_u s)))"

fun lower_uchar :: "uchar \<Rightarrow> uchar list" where
  "lower_uchar (Latin1 a) = [Latin1 (lower_char a)]"
| "lower_uchar U0130 = [Latin1 CHR ''i'', U0307]"
| "lower_uchar U0307 = [U0307]"

definition lower_u :: "uchar list \<Rightarrow> uchar list" where
  "lower_u s = concat (map lower_uchar s)"

definition variant_u :: "uchar list \<Rightarrow> uchar list \<Rightarrow> uchar list option" where
  "variant_u model_text model_type_text =
     (let model = strip_u model_text; model_variant = strip_u model_type_text
      in if lower_u (take (length model) model_variant) = lower_u model
         then Some (strip_u (drop (length model) model_variant))
         else None)"

section \<open>Basic facts about rows and strings\<close>

lemma getitem_upd_other: "c \<noteq> k \<Longrightarrow> getitem (row(c \<mapsto> v)) k = getitem row k"
  by (simp add: getitem_def)

lemma getitem_Some: "row k = Some v \<Longrightarrow> getitem row k = Inr v"
  by (simp add: getitem_def)

lemma bind_err_Inr: "bind_err (Inr v) f = f v"
  by (simp add: bind_err_def)

lemma map_sum_Inl_D: "map_sum id f x = Inl e \<Longrightarrow> x = Inl e"
  by (cases x) simp_all

lemma contains_sublist: "contains g s \<longleftrightarrow> sublist g s"
  by (induction s) (auto simp: sublist_Cons_right)

text \<open>What \<open>strip\<close> returns starts with no white space, so stripping again changes nothing.\<close>

lemma dropWhile_rev_dropWhile:
  "dropWhile P (rev (dropWhile P (rev (dropWhile P s)))) = rev (dropWhile P (rev (dropWhile P s)))"
proof -
  define u where "u = dropWhile P s"
  define w where "w = rev (dropWhile P (rev u))"
  have u: "u = w @ rev (takeWhile P (rev u))"
    by (metis w_def rev_append rev_rev_ident takeWhile_dropWhile_id)
  have "dropWhile P w = w"
  proof (cases w)
    case Nil
    then show ?thesis by simp
  next
    case (Cons a w')
    with u obtain z where "u = a # z" by (metis append_Cons)
    then have "u \<noteq> []" and "hd u = a" by simp_all
    then have "\<not> P a" unfolding u_def using hd_dropWhile by metis
    then show ?thesis using Cons by simp
  qed
  then show ?thesis by (simp add: w_def u_def)
qed

lemma strip_idem: "strip (strip s) = strip s"
  by (simp add: strip_def dropWhile_rev_dropWhile)

section \<open>The colour rule\<close>

lemma color_germans_text:
  "row ''BodyColorText'' = Some (PStr t) \<Longrightarrow>
   color_germans row germans = Inr (\<exists>german\<in>set germans. sublist german t)"
  by (induction germans) (auto simp: bind_err_def getitem_def contains_sublist)

lemma color_pairs_text:
  "row ''BodyColorText'' = Some (PStr t) \<Longrightarrow>
   color_pairs row pairs = Inr (PStr
     (case find (\<lambda>pair. \<exists>german\<in>set (snd pair). sublist german t) pairs of
        None \<Rightarrow> ''Other'' | Some pair \<Rightarrow> fst pair))"
  by (induction pairs) (auto simp: bind_err_def color_germans_text)

text \<open>
  C7. For every raw colour text, the colour rule of either script returns the English name
  of the first pair of the ordered list one of whose German substrings occurs in the text
  (containment, letter case kept; an earlier pair wins), and \<open>Other\<close> when no substring
  occurs. The witness is the specification's two examples: \<open>schwarz metallic\<close> gives \<open>Black\<close>
  and \<open>xyz\<close> gives \<open>Other\<close>.
\<close>

theorem color_rule_first_match:
  assumes "row ''BodyColorText'' = Some (PStr t)"
  shows "normalize_color row = Inr (PStr (color_rule_spec t))
       \<and> norm_color row = Inr (PStr (color_rule_spec t))"
  using assms
  by (simp add: normalize_color_def norm_color_def color_rule_spec_def color_pairs_text)

theorem color_rule_examples:
  "normalize_color [''BodyColorText'' \<mapsto> PStr ''schwarz metallic''] = Inr (PStr ''Black'')
   \<and> norm_color [''BodyColorText'' \<mapsto> PStr ''schwarz metallic''] = Inr (PStr ''Black'')
   \<and> normalize_color [''BodyColorText'' \<mapsto> PStr ''xyz''] = Inr (PStr ''Other'')
   \<and> norm_color [''BodyColorText'' \<mapsto> PStr ''xyz''] = Inr (PStr ''Other'')"
  using color_rule_first_match[of "[''BodyColorText'' \<mapsto> PStr ''schwarz metallic'']"
          "''schwarz metallic''"]
        color_rule_first_match[of "[''BodyColorText'' \<mapsto> PStr ''xyz'']" "''xyz''"]
  by (simp add: color_rule_spec_def color_table_def contains_sublist[symmetric])

section \<open>The variant rule\<close>
















text \<open>
  On text up to U+00FF the wider model is the model above, so \<open>variant_u\<close> is the rule the
  two scripts run.
\<close>

lemma lower_u_Latin1: "lower_u (map Latin1 s) = map Latin1 (lower s)"
  by (induction s) (simp_all add: lower_u_def lower_def)

lemma strip_u_Latin1: "strip_u (map Latin1 s) = map Latin1 (strip s)"
proof -
  have "is_space_u \<circ> Latin1 = is_space" by (rule ext) (simp add: is_space_u_def)
  then show ?thesis by (simp add: strip_u_def strip_def dropWhile_map rev_map)
qed

lemma variant_u_Latin1:
  "variant_u (map Latin1 m) (map Latin1 t)
   = (if lower (take (length (strip m)) (strip t)) = lower (strip m)
      then Some (map Latin1 (strip (drop (length (strip m)) (strip t)))) else None)"
proof -
  have inj: "map Latin1 a = map Latin1 b \<longleftrightarrow> a = b" for a b
    by (simp add: inj_map_eq_map inj_def)
  show ?thesis
    by (simp add: variant_u_def strip_u_Latin1 lower_u_Latin1 take_map drop_map
        inj Let_def)
qed

lemma normalize_variant_variant_u:
  assumes "row ''ModelText'' = Some (PStr m)"
    and "row ''ModelTypeText'' = Some (PStr t)"
    and "row ''TypeName'' = Some ty"
  shows "normalize_variant row
         = (case variant_u (map Latin1 m) (map Latin1 t) of
              None \<Rightarrow> Inr ty
            | Some r \<Rightarrow> Inr (PStr (strip (drop (length (strip m)) (strip t)))))"
    and "norm_variant row = normalize_variant row"
  using assms
  by (simp_all add: normalize_variant_def norm_variant_def variant_u_Latin1 getitem_def
      bind_err_def)


text \<open>
  C10. For every record whose model text strips to the empty string, the variant rule of
  either script never falls back to the type name (it does not even read it): the empty
  prefix matches, and the variant is the whole stripped model-type text.
\<close>

theorem variant_empty_model:
  assumes "row ''ModelText'' = Some (PStr m)"
    and "strip m = []"
    and "row ''ModelTypeText'' = Some (PStr t)"
  shows "normalize_variant row = Inr (PStr (strip t))
       \<and> norm_variant row = Inr (PStr (strip t))"
  using assms
  by (simp add: normalize_variant_def norm_variant_def getitem_def bind_err_def strip_idem
      lower_def)

theorem variant_empty_model_witness:
  "strip ''  '' = []
   \<and> normalize_variant [''ModelText'' \<mapsto> PStr ''  '', ''ModelTypeText'' \<mapsto> PStr '' Avant '']
       = Inr (PStr ''Avant'')
   \<and> norm_variant [''ModelText'' \<mapsto> PStr ''  '', ''ModelTypeText'' \<mapsto> PStr '' Avant '']
       = Inr (PStr ''Avant'')"
proof -
  have a: "strip ''  '' = []" by code_simp
  have b: "strip '' Avant '' = ''Avant''" by code_simp
  show ?thesis
    using variant_empty_model[of "[''ModelText'' \<mapsto> PStr ''  '',
              ''ModelTypeText'' \<mapsto> PStr '' Avant '']" "''  ''" "'' Avant ''"] a b
    by simp
qed

section \<open>The carType rule\<close>

text \<open>
  What each script's rule does: the first returns \<open>Single seater\<close> for the number 1, the
  second for the string \<open>'1'\<close>; past that test both return the table's image of the
  body-type text, and \<open>Other\<close> when the text is not in the table, is missing or is absent.
\<close>

lemma normalize_cartype_number_one:
  "row ''Seats'' = Some (PNum 1) \<Longrightarrow> normalize_cartype row = Inr (PStr ''Single seater'')"
  by (simp add: normalize_cartype_def getitem_def bind_err_def)

lemma norm_cartype_string_one:
  "row ''Seats'' = Some (PStr ''1'') \<Longrightarrow> norm_cartype row = Inr (PStr ''Single seater'')"
  by (simp add: norm_cartype_def getitem_def bind_err_def)

lemma cartype_lookup:
  "except_KeyError (bind_err (getitem row ''BodyTypeText'') (dict_getitem cartype_table))
     (PStr ''Other'')
   = Inr (PStr (case row ''BodyTypeText'' of
                  Some (PStr b) \<Rightarrow> (case map_of cartype_table b of
                                      None \<Rightarrow> ''Other'' | Some english \<Rightarrow> english)
                | _ \<Rightarrow> ''Other''))"
  by (simp add: except_KeyError_def bind_err_def getitem_def
      split: option.splits pyval.splits)

lemma norm_cartype_otherwise:
  "row ''Seats'' = Some v \<Longrightarrow> \<not> py_eq v (PStr ''1'') \<Longrightarrow>
   norm_cartype row
   = Inr (PStr (case row ''BodyTypeText'' of
                  Some (PStr b) \<Rightarrow> (case map_of cartype_table b of
                                      None \<Rightarrow> ''Other'' | Some english \<Rightarrow> english)
                | _ \<Rightarrow> ''Other''))"
  by (simp add: norm_cartype_def getitem_Some bind_err_Inr cartype_lookup)

lemma normalize_cartype_otherwise:
  "row ''Seats'' = Some v \<Longrightarrow> \<not> py_eq v (PNum 1) \<Longrightarrow>
   normalize_cartype row
   = Inr (PStr (case row ''BodyTypeText'' of
                  Some (PStr b) \<Rightarrow> (case map_of cartype_table b of
                                      None \<Rightarrow> ''Other'' | Some english \<Rightarrow> english)
                | _ \<Rightarrow> ''Other''))"
  by (simp add: normalize_cartype_def getitem_Some bind_err_Inr cartype_lookup)

text \<open>
  C6. The specification's own scenario gives the seat count as the attribute value
  \<open>"1"\<close>, a string, and expects \<open>Single seater\<close>. The first script compares the cell with
  the number 1, which no string equals, and returns the body type's image instead; the
  second script compares with \<open>'1'\<close> and returns \<open>Single seater\<close>.
\<close>

theorem cartype_string_seat:
  "normalize_cartype (example_record(''Seats'' \<mapsto> PStr ''1'')) = Inr (PStr ''Saloon'')
   \<and> norm_cartype (example_record(''Seats'' \<mapsto> PStr ''1'')) = Inr (PStr ''Single seater'')"
  by code_simp

section \<open>Missing and null inputs\<close>

text \<open>
  The condition and zip rules never raise: an absent column and a missing value both end
  in the \<open>except KeyError\<close> branch.
\<close>

lemma table_rule_total:
  "\<exists>s. except_KeyError (bind_err (getitem row k) (dict_getitem table)) (PStr ''Other'')
        = Inr (PStr s)"
  by (cases "row k"; cases "the (row k)")
     (auto simp: except_KeyError_def bind_err_def getitem_def split: option.splits)

lemma condition_rule_total:
  "\<exists>s. normalize_condition row = Inr (PStr s)" "\<exists>s. norm_condition row = Inr (PStr s)"
  by (simp_all add: normalize_condition_def norm_condition_def table_rule_total)

lemma zip_rule_total:
  "\<exists>s. normalize_zip row = Inr (PStr s)" "\<exists>s. norm_zip row = Inr (PStr s)"
  by (simp_all add: normalize_zip_def norm_zip_def table_rule_total)

lemma condition_rule_null:
  assumes "row ''ConditionTypeText'' = None \<or> row ''ConditionTypeText'' = Some PNone
           \<or> row ''ConditionTypeText'' = Some PNaN"
  shows "normalize_condition row = Inr (PStr ''Other'')"
    and "norm_condition row = Inr (PStr ''Other'')"
  using assms
  by (auto simp: normalize_condition_def norm_condition_def except_KeyError_def bind_err_def
      getitem_def)

lemma zip_rule_null:
  assumes "row ''City'' = None \<or> row ''City'' = Some PNone \<or> row ''City'' = Some PNaN"
  shows "normalize_zip row = Inr (PStr ''Other'')"
    and "norm_zip row = Inr (PStr ''Other'')"
  using assms
  by (auto simp: normalize_zip_def norm_zip_def except_KeyError_def bind_err_def getitem_def)

text \<open>
  The carType rule reads \<open>Seats\<close> outside its \<open>try\<close>: an absent column raises, a missing
  value does not.
\<close>

lemma cartype_rule_seats_absent:
  assumes "row ''Seats'' = None"
  shows "normalize_cartype row = Inl KeyError" and "norm_cartype row = Inl KeyError"
  using assms
  by (simp_all add: normalize_cartype_def norm_cartype_def getitem_def bind_err_def)

lemma cartype_rule_null:
  assumes "row ''Seats'' = Some PNaN"
    and "row ''BodyTypeText'' = None \<or> row ''BodyTypeText'' = Some PNone
         \<or> row ''BodyTypeText'' = Some PNaN"
  shows "normalize_cartype row = Inr (PStr ''Other'')"
    and "norm_cartype row = Inr (PStr ''Other'')"
  using assms
  by (auto simp: normalize_cartype_def norm_cartype_def except_KeyError_def bind_err_def
      getitem_def)

text \<open>
  The colour and variant rules have no such branch: they raise on every cell that is not
  a string.
\<close>

lemma variant_rule_not_a_string:
  assumes "row ''ModelText'' = Some (PStr m)"
    and "row ''ModelTypeText'' = Some v" and "\<forall>s. v \<noteq> PStr s"
  shows "normalize_variant row = Inl AttributeError"
    and "norm_variant row = Inl AttributeError"
  using assms
  by (cases v; simp add: normalize_variant_def norm_variant_def getitem_def bind_err_def)+

lemma color_rule_not_a_string:
  assumes "row ''BodyColorText'' = Some v" and "\<forall>s. v \<noteq> PStr s"
  shows "normalize_color row = Inl TypeError" and "norm_color row = Inl TypeError"
  using assms
  by (cases v; simp add: normalize_color_def norm_color_def color_table_def getitem_def
      bind_err_def)+

lemma color_rule_absent:
  assumes "row ''BodyColorText'' = None"
  shows "normalize_color row = Inl KeyError" and "norm_color row = Inl KeyError"
  using assms
  by (simp_all add: normalize_color_def norm_color_def color_table_def getitem_def bind_err_def)

text \<open>
  C2. A listing without a \<open>BodyColorText\<close> attribute, in a file where another listing has
  one, is aggregated to a record whose colour cell is \<open>nan\<close>. On it the colour rule of
  either script raises \<open>TypeError\<close> instead of returning \<open>Other\<close>, and the whole
  normalization ends with that exception. The variant rule of the second script raises
  \<open>AttributeError\<close> on a missing model-type text. The carType, condition and zip rules do
  return \<open>Other\<close> on a missing input.
\<close>

theorem color_rule_raises_on_null:
  "normalize_color (example_record(''BodyColorText'' \<mapsto> PNaN)) = Inl TypeError
   \<and> norm_color (example_record(''BodyColorText'' \<mapsto> PNaN)) = Inl TypeError
   \<and> norm_variant (example_record(''ModelTypeText'' \<mapsto> PNaN)) = Inl AttributeError
   \<and> normalize_condition (example_record(''ConditionTypeText'' \<mapsto> PNaN)) = Inr (PStr ''Other'')
   \<and> normalized_data (listing 5 full_attributes
                       @ listing 6 (without ''BodyColorText'' full_attributes)) = Inl TypeError
   \<and> normalized_df (listing 5 full_attributes
                     @ listing 6 (without ''BodyColorText'' full_attributes)) = Inl TypeError"
proof -
  let ?df = "listing 5 full_attributes @ listing 6 (without ''BodyColorText'' full_attributes)"
  have "map_sum id length (normalized_data ?df) = Inl TypeError" by code_simp
  then have a: "normalized_data ?df = Inl TypeError" by (rule map_sum_Inl_D)
  have "map_sum id length (normalized_df ?df) = Inl TypeError" by code_simp
  then have b: "normalized_df ?df = Inl TypeError" by (rule map_sum_Inl_D)
  have c: "normalize_color (example_record(''BodyColorText'' \<mapsto> PNaN)) = Inl TypeError"
          "norm_color (example_record(''BodyColorText'' \<mapsto> PNaN)) = Inl TypeError"
          "norm_variant (example_record(''ModelTypeText'' \<mapsto> PNaN)) = Inl AttributeError"
          "normalize_condition (example_record(''ConditionTypeText'' \<mapsto> PNaN))
           = Inr (PStr ''Other'')"
    by code_simp+
  from a b c show ?thesis by simp
qed

section \<open>The order of the rules\<close>

text \<open>Each rule reads its own columns only.\<close>

lemma color_germans_upd:
  "c \<noteq> ''BodyColorText'' \<Longrightarrow> color_germans (row(c \<mapsto> v)) gs = color_germans row gs"
  by (induction gs) (simp_all add: getitem_upd_other cong: if_cong)

lemma color_pairs_upd:
  "c \<noteq> ''BodyColorText'' \<Longrightarrow> color_pairs (row(c \<mapsto> v)) ps = color_pairs row ps"
  by (induction ps) (auto simp: color_germans_upd cong: if_cong)

lemma cartype_upd:
  "c \<noteq> ''Seats'' \<Longrightarrow> c \<noteq> ''BodyTypeText'' \<Longrightarrow>
   normalize_cartype (row(c \<mapsto> v)) = normalize_cartype row"
  "c \<noteq> ''Seats'' \<Longrightarrow> c \<noteq> ''BodyTypeText'' \<Longrightarrow>
   norm_cartype (row(c \<mapsto> v)) = norm_cartype row"
  by (simp_all add: normalize_cartype_def norm_cartype_def getitem_upd_other cong: if_cong)

lemma color_upd:
  "c \<noteq> ''BodyColorText'' \<Longrightarrow> normalize_color (row(c \<mapsto> v)) = normalize_color row"
  "c \<noteq> ''BodyColorText'' \<Longrightarrow> norm_color (row(c \<mapsto> v)) = norm_color row"
  by (simp_all add: normalize_color_def norm_color_def color_pairs_upd)

lemma condition_upd:
  "c \<noteq> ''ConditionTypeText'' \<Longrightarrow>
   normalize_condition (row(c \<mapsto> v)) = normalize_condition row"
  "c \<noteq> ''ConditionTypeText'' \<Longrightarrow> norm_condition (row(c \<mapsto> v)) = norm_condition row"
  by (simp_all add: normalize_condition_def norm_condition_def getitem_upd_other)

lemma variant_upd:
  "c \<noteq> ''ModelText'' \<Longrightarrow> c \<noteq> ''ModelTypeText'' \<Longrightarrow> c \<noteq> ''TypeName'' \<Longrightarrow>
   normalize_variant (row(c \<mapsto> v)) = normalize_variant row"
  "c \<noteq> ''ModelText'' \<Longrightarrow> c \<noteq> ''ModelTypeText'' \<Longrightarrow> c \<noteq> ''TypeName'' \<Longrightarrow>
   norm_variant (row(c \<mapsto> v)) = norm_variant row"
  by (simp_all add: normalize_variant_def norm_variant_def getitem_upd_other cong: if_cong)

lemma zip_upd:
  "c \<noteq> ''City'' \<Longrightarrow> normalize_zip (row(c \<mapsto> v)) = normalize_zip row"
  "c \<noteq> ''City'' \<Longrightarrow> norm_zip (row(c \<mapsto> v)) = norm_zip row"
  by (simp_all add: normalize_zip_def norm_zip_def getitem_upd_other)

lemmas rule_upd = cartype_upd color_upd condition_upd variant_upd zip_upd

lemma independent_NORM_FUNCTIONS: "independent NORM_FUNCTIONS"
  by (simp add: independent_def NORM_FUNCTIONS_def rule_upd)

lemma independent_NORM_FUNCT: "independent NORM_FUNCT"
  by (simp add: independent_def NORM_FUNCT_def rule_upd)

lemma independent_Cons: "independent (cf # fs) \<Longrightarrow> independent fs"
  by (simp add: independent_def)

lemma independent_head:
  assumes "independent (cf # fs)" and "cf' \<in> set fs" and "fst cf \<notin> fst ` set fs"
  shows "snd cf' (row(fst cf \<mapsto> v)) = snd cf' row"
proof -
  from assms(2,3) have "fst cf' \<noteq> fst cf" by (metis image_eqI)
  with assms(1,2) show ?thesis by (auto simp: independent_def)
qed

lemma rewritten_Cons:
  assumes "independent ((c, f) # fs)" and "c \<notin> fst ` set fs" and "f row = Inr v"
  shows "rewritten fs (row(c \<mapsto> v)) = rewritten ((c, f) # fs) row"
proof
  fix k
  show "rewritten fs (row(c \<mapsto> v)) k = rewritten ((c, f) # fs) row k"
  proof (cases "map_of fs k")
    case None
    then show ?thesis using assms(3) by (simp add: rewritten_def)
  next
    case (Some g)
    then have mem: "(k, g) \<in> set fs" by (rule map_of_SomeD)
    with assms(2) have "k \<noteq> c" by force
    moreover have "g (row(c \<mapsto> v)) = g row"
      using independent_head[OF assms(1) mem, of row v] assms(2) by simp
    ultimately show ?thesis using Some by (simp add: rewritten_def)
  qed
qed

text \<open>
  A run of independent rules with distinct columns succeeds exactly when every rule
  succeeds on the record as it came in, and then yields the rewritten record.
\<close>

lemma apply_functions_char:
  assumes "distinct (map fst fs)" and "independent fs"
  shows "apply_functions fs row = Inr r \<longleftrightarrow>
         list_all (\<lambda>cf. \<exists>u. snd cf row = Inr u) fs \<and> r = rewritten fs row"
  using assms
proof (induction fs arbitrary: row)
  case Nil
  show ?case by (auto simp: rewritten_def)
next
  case (Cons cf fs)
  obtain c f where cf: "cf = (c, f)" by (cases cf)
  from Cons.prems have fresh: "c \<notin> fst ` set fs" and dist: "distinct (map fst fs)"
    by (simp_all add: cf)
  from Cons.prems have ind: "independent fs" by (auto dest: independent_Cons)
  show ?case
  proof (cases "f row")
    case (Inl e)
    then show ?thesis by (simp add: cf bind_err_def)
  next
    case (Inr v)
    have same: "list_all (\<lambda>cf. \<exists>u. snd cf (row(c \<mapsto> v)) = Inr u) fs
                = list_all (\<lambda>cf. \<exists>u. snd cf row = Inr u) fs"
      using independent_head[OF Cons.prems(2)[unfolded cf] _ , of _ row v] fresh
      by (auto simp: list_all_iff)
    have "apply_functions (cf # fs) row = apply_functions fs (row(c \<mapsto> v))"
      using Inr by (simp add: cf bind_err_def)
    moreover have "apply_functions fs (row(c \<mapsto> v)) = Inr r \<longleftrightarrow>
        list_all (\<lambda>cf. \<exists>u. snd cf (row(c \<mapsto> v)) = Inr u) fs
        \<and> r = rewritten fs (row(c \<mapsto> v))"
      by (rule Cons.IH[OF dist ind])
    moreover have "rewritten fs (row(c \<mapsto> v)) = rewritten (cf # fs) row"
      unfolding cf by (rule rewritten_Cons[OF Cons.prems(2)[unfolded cf] fresh Inr])
    moreover have "list_all (\<lambda>cf. \<exists>u. snd cf row = Inr u) (cf # fs)
        = list_all (\<lambda>cf. \<exists>u. snd cf row = Inr u) fs"
      using Inr by (simp add: cf)
    ultimately show ?thesis using same by (simp only:)
  qed
qed

lemma mset_eq_apply_functions:
  assumes "mset fs = mset gs" and "distinct (map fst gs)" and "independent gs"
  shows "apply_functions fs row = Inr r \<longleftrightarrow> apply_functions gs row = Inr r"
proof -
  from assms(1) have s: "set fs = set gs" by (rule mset_eq_setD)
  from assms(1) have "mset (map fst fs) = mset (map fst gs)" by simp
  with assms(2) have d: "distinct (map fst fs)" by (metis mset_eq_imp_distinct_iff)
  from s assms(3) have i: "independent fs" by (simp add: independent_def)
  from s d assms(2) have "map_of fs = map_of gs" by (simp add: map_of_inject_set)
  then have "rewritten fs row = rewritten gs row" by (simp add: rewritten_def)
  with s show ?thesis
    by (simp add: apply_functions_char[OF d i] apply_functions_char[OF assms(2,3)] list_all_iff)
qed

text \<open>
  C9. The five rules are order-insensitive. For every record and every permutation of
  the five (column, rule) pairs of either script, running the pairs in that order, each
  rule reading the record as the rules before it left it, yields a normalized record
  exactly when the script's own order yields it, and then the same one (a record being
  the map from column labels to cells); and no rule's result depends on a column another
  rule writes. When a rule raises, every order raises (which exception comes first may
  differ).
\<close>

theorem normalize_order_insensitive:
  assumes "mset fs = mset NORM_FUNCTIONS" and "mset gs = mset NORM_FUNCT"
  shows "(apply_functions fs row = Inr r \<longleftrightarrow> normalize_os row = Inr r)
       \<and> (apply_functions gs row = Inr r \<longleftrightarrow> normalize_da row = Inr r)
       \<and> independent NORM_FUNCTIONS \<and> independent NORM_FUNCT"
  using mset_eq_apply_functions[OF assms(1) _ independent_NORM_FUNCTIONS, of row r]
        mset_eq_apply_functions[OF assms(2) _ independent_NORM_FUNCT, of row r]
  by (simp add: normalize_os_def normalize_da_def independent_NORM_FUNCTIONS
        independent_NORM_FUNCT)
     (simp add: NORM_FUNCTIONS_def NORM_FUNCT_def)

theorem normalize_order_witness:
  "mset (rev NORM_FUNCTIONS) = mset NORM_FUNCTIONS
   \<and> mset (rev NORM_FUNCT) = mset NORM_FUNCT
   \<and> (\<exists>r. normalize_os example_record = Inr r
          \<and> apply_functions (rev NORM_FUNCTIONS) example_record = Inr r)
   \<and> (\<exists>r. normalize_da example_record = Inr r
          \<and> apply_functions (rev NORM_FUNCT) example_record = Inr r)"
proof -
  have a: "mset (rev NORM_FUNCTIONS) = mset NORM_FUNCTIONS" by simp
  have b: "mset (rev NORM_FUNCT) = mset NORM_FUNCT" by simp
  have "case normalize_os example_record of Inl e \<Rightarrow> False | Inr r \<Rightarrow> True"
    by code_simp
  then obtain r where r: "normalize_os example_record = Inr r"
    by (cases "normalize_os example_record") simp_all
  have "case normalize_da example_record of Inl e \<Rightarrow> False | Inr r \<Rightarrow> True"
    by code_simp
  then obtain r' where r': "normalize_da example_record = Inr r'"
    by (cases "normalize_da example_record") simp_all
  show ?thesis
    using normalize_order_insensitive[OF a b, of example_record r]
          normalize_order_insensitive[OF a b, of example_record r'] r r'
    by simp
qed

section \<open>Integration\<close>

text \<open>
  The second script integrates the normalized condition: its \<open>condition\<close> field is the
  \<open>Condition\<close> cell, which normalization has set to the condition rule's result.
\<close>

lemma integrate_da_condition:
  "integrate_da row = Inr out \<Longrightarrow> map_of out ''condition'' = row ''Condition''"
  by (auto simp: integrate_da_def bind_err_def getitem_def split: option.splits)

lemma normalize_da_Condition:
  assumes "normalize_da row = Inr row'"
  shows "\<exists>v. norm_condition row = Inr v \<and> row' ''Condition'' = Some v"
proof -
  have d: "distinct (map fst NORM_FUNCT)" by (simp add: NORM_FUNCT_def)
  from assms have all: "list_all (\<lambda>cf. \<exists>u. snd cf row = Inr u) NORM_FUNCT"
    and r: "row' = rewritten NORM_FUNCT row"
    by (simp_all add: normalize_da_def apply_functions_char[OF d independent_NORM_FUNCT])
  from all obtain v where v: "norm_condition row = Inr v"
    by (auto simp: NORM_FUNCT_def)
  with r show ?thesis by (simp add: rewritten_def NORM_FUNCT_def)
qed

text \<open>
  C1. The first script's \<open>integrate\<close> reads the raw \<open>ConditionTypeText\<close> cell, not the
  \<open>Condition\<close> cell its own normalization has just written: for a listing in condition
  \<open>Occasion\<close> the normalized condition is \<open>Used\<close> and the integrated condition is
  \<open>Occasion\<close>. The second script integrates \<open>Used\<close>.
\<close>

theorem integrate_condition_is_raw:
  "bind_err (normalize_os example_record) (\<lambda>r.
     bind_err (integrate r) (\<lambda>out. Inr (r ''Condition'', map_of out ''condition'')))
   = Inr (Some (PStr ''Used''), Some (PStr ''Occasion''))
   \<and> bind_err (normalize_da example_record) (\<lambda>r.
       bind_err (integrate_da r) (\<lambda>out. Inr (r ''Condition'', map_of out ''condition'')))
     = Inr (Some (PStr ''Used''), Some (PStr ''Used''))
   \<and> map_sum id (map (\<lambda>out. map_of out ''condition'')) (formated_data (listing 5 full_attributes))
     = Inr [Some (PStr ''Occasion'')]
   \<and> map_sum id (map (\<lambda>out. map_of out ''condition'')) (integrated_df (listing 5 full_attributes))
     = Inr [Some (PStr ''Used'')]"
  by code_simp

text \<open>The last field on a string, on \<open>None\<close> and on \<open>nan\<close>.\<close>

lemma fuel_consumption_unit_cases:
  "fuel_consumption_unit (PStr s)
   = (if s \<noteq> [] \<and> s \<noteq> ''null'' then PStr ''l_km_consumption'' else PNone)"
  "fuel_consumption_unit PNone = PNone"
  "fuel_consumption_unit PNaN = PStr ''l_km_consumption''"
  by (simp_all add: fuel_consumption_unit_def)

lemma integrate_fuel_consumption_unit:
  "integrate row = Inr out \<Longrightarrow>
   \<exists>c. row ''ConsumptionTotalText'' = Some c
        \<and> map_of out ''fuel_consumption_unit'' = Some (fuel_consumption_unit c)"
  by (auto simp: integrate_def bind_err_def getitem_def split: option.splits)

text \<open>
  C3. A listing without a \<open>ConsumptionTotalText\<close> attribute, in a file where another
  listing has one, is aggregated to a record whose consumption cell is \<open>nan\<close>. The test
  \<open>c and c != 'null'\<close> takes \<open>nan\<close> for a present value (\<open>nan\<close> is true in a condition), so
  either script gives that listing the unit \<open>l_km_consumption\<close> although its consumption
  text is missing.
\<close>

theorem fuel_unit_for_missing_consumption:
  "map_sum id (map (\<lambda>r. r ''ConsumptionTotalText''))
     (normalized_data (listing 5 full_attributes
                       @ listing 6 (without ''ConsumptionTotalText'' full_attributes)))
   = Inr [Some (PStr ''5.1 l/100km''), Some PNaN]
   \<and> map_sum id (map (\<lambda>out. map_of out ''fuel_consumption_unit''))
       (formated_data (listing 5 full_attributes
                       @ listing 6 (without ''ConsumptionTotalText'' full_attributes)))
     = Inr [Some (PStr ''l_km_consumption''), Some (PStr ''l_km_consumption'')]
   \<and> map_sum id (map (\<lambda>out. map_of out ''fuel_consumption_unit''))
       (integrated_df (listing 5 full_attributes
                       @ listing 6 (without ''ConsumptionTotalText'' full_attributes)))
     = Inr [Some (PStr ''l_km_consumption''), Some (PStr ''l_km_consumption'')]"
  by code_simp

section \<open>Counting the aggregated records\<close>

lemma length_insert_key: "length (insert_key k xs) = Suc (length xs)"
  by (induction xs) simp_all

lemma set_insert_key: "set (insert_key k xs) = insert k (set xs)"
  by (induction xs) auto

lemma length_sort_keys: "length (sort_keys ks) = length ks"
  by (induction ks) (simp_all add: sort_keys_def length_insert_key)

lemma set_sort_keys: "set (sort_keys ks) = set ks"
  by (induction ks) (simp_all add: sort_keys_def set_insert_key)

lemma length_groupby_False: "length (groupby False df) = card (key_of ` set df)"
  by (simp add: groupby_def length_sort_keys length_remdups_card_conv)

lemma length_groupby_True:
  "length (groupby True df) = card (key_of ` {r \<in> set df. \<not> has_null (key_of r)})"
  by (simp add: groupby_def length_sort_keys length_remdups_card_conv)

text \<open>
  The second script emits one record per distinct key of the input; the first one record
  per distinct key that has no missing value.
\<close>

lemma length_df_grp_agg_attr: "length (df_grp_agg_attr df) = card (key_of ` set df)"
  by (simp add: df_grp_agg_attr_def df_grp_agg_def frame_def length_groupby_False)

lemma length_agg_data:
  "length (agg_data df) = card (key_of ` {r \<in> set df. \<not> has_null (key_of r)})"
  by (simp add: agg_data_def frame_def length_groupby_True Let_def)

text \<open>
  C4. The first script groups with the default \<open>dropna\<close>, which leaves out every row
  with a missing key value: for the single raw row whose model text is \<open>null\<close> it emits no
  record at all, where the input has one distinct key. The second script, which passes
  \<open>dropna=False\<close>, emits the one record.
\<close>

theorem agg_data_drops_null_group:
  "agg_data [null_model_row] = []
   \<and> card (key_of ` set [null_model_row]) = 1
   \<and> length (df_grp_agg_attr [null_model_row]) = 1"
proof -
  have "length (agg_data [null_model_row]) = 0" by code_simp
  moreover have "length (df_grp_agg_attr [null_model_row]) = 1" by code_simp
  ultimately show ?thesis by simp
qed

section \<open>The two scripts compared\<close>

text \<open>
  Four of the five rules are the same functions in both scripts; the carType rules
  differ in the seat test only.
\<close>

lemma rules_agree:
  "norm_color = normalize_color" "norm_condition = normalize_condition"
  "norm_variant = normalize_variant" "norm_zip = normalize_zip"
  by (rule ext, simp add: norm_color_def normalize_color_def norm_condition_def
      normalize_condition_def norm_variant_def normalize_variant_def norm_zip_def
      normalize_zip_def)+

lemma cartype_agrees:
  assumes "row ''Seats'' \<noteq> Some (PNum 1)" and "row ''Seats'' \<noteq> Some (PStr ''1'')"
  shows "norm_cartype row = normalize_cartype row"
proof (cases "row ''Seats''")
  case None
  then show ?thesis by (simp add: norm_cartype_def normalize_cartype_def getitem_def bind_err_def)
next
  case (Some v)
  with assms have "\<not> py_eq v (PNum 1)" and "\<not> py_eq v (PStr ''1'')" by (cases v; simp)+
  with Some show ?thesis
    by (simp add: norm_cartype_def normalize_cartype_def getitem_def bind_err_def)
qed

text \<open>
  C5. The two scripts are not extensionally equal: the first one deviates from the
  second at every stage. They aggregate the raw row with the \<open>null\<close> model text to
  collections of different length (the first drops the group); they normalize the listing
  with the seat count \<open>"1"\<close> to different body types (the first compares with the number
  1); and they integrate the plain example listing to different records (the first takes
  the raw condition text).
\<close>

theorem scripts_differ:
  "length (agg_data [null_model_row]) \<noteq> length (df_grp_agg_attr [null_model_row])
   \<and> map_sum id (map (\<lambda>r. r ''BodyTypeText''))
       (normalized_data (listing 5 ((''Seats'', PStr ''1'') # without ''Seats'' full_attributes)))
     \<noteq> map_sum id (map (\<lambda>r. r ''BodyTypeText''))
         (normalized_df (listing 5 ((''Seats'', PStr ''1'') # without ''Seats'' full_attributes)))
   \<and> formated_data (listing 5 full_attributes) \<noteq> integrated_df (listing 5 full_attributes)"
  by code_simp

end
